theory Spec2Isabelle
  imports Complex_Main
begin

section \<open>Values of the numeric library\<close>

text \<open>
  The experiment script \<^verbatim>\<open>IF_experiment_cuda.py\<close> computes with numpy double
  precision numbers. A double is modelled by its value: a real number when it is
  finite, or one of the three special values. In the operations on arrays below,
  arithmetic on finite values is the arithmetic of the reals (rounding, overflow
  and the sign of zero are left out); the special values follow IEEE 754, which is
  what numpy does: a numpy division by zero gives an infinity or a NaN and a
  warning, it does not raise. The frequency laws of \<^verbatim>\<open>set_if_fun\<close>, whose values are
  what a claim is about, are computed with the rounded operations of the
  subsection on rounding.
\<close>

datatype float64 = Fin real | PInf | NInf | NaN

fun np_neg :: "float64 \<Rightarrow> float64" where
  "np_neg (Fin a) = Fin (- a)"
| "np_neg PInf = NInf"
| "np_neg NInf = PInf"
| "np_neg NaN = NaN"

fun np_add :: "float64 \<Rightarrow> float64 \<Rightarrow> float64" where
  "np_add NaN _ = NaN"
| "np_add _ NaN = NaN"
| "np_add (Fin a) (Fin b) = Fin (a + b)"
| "np_add PInf NInf = NaN"
| "np_add NInf PInf = NaN"
| "np_add PInf _ = PInf"
| "np_add NInf _ = NInf"
| "np_add (Fin a) PInf = PInf"
| "np_add (Fin a) NInf = NInf"

definition np_sub :: "float64 \<Rightarrow> float64 \<Rightarrow> float64" where
  "np_sub a b = np_add a (np_neg b)"

definition signed_inf :: "bool \<Rightarrow> float64" where
  "signed_inf positive = (if positive then PInf else NInf)"

fun np_mul :: "float64 \<Rightarrow> float64 \<Rightarrow> float64" where
  "np_mul NaN _ = NaN"
| "np_mul _ NaN = NaN"
| "np_mul (Fin a) (Fin b) = Fin (a * b)"
| "np_mul (Fin a) PInf = (if a = 0 then NaN else signed_inf (0 < a))"
| "np_mul (Fin a) NInf = (if a = 0 then NaN else signed_inf (a < 0))"
| "np_mul PInf (Fin b) = (if b = 0 then NaN else signed_inf (0 < b))"
| "np_mul NInf (Fin b) = (if b = 0 then NaN else signed_inf (b < 0))"
| "np_mul PInf PInf = PInf"
| "np_mul PInf NInf = NInf"
| "np_mul NInf PInf = NInf"
| "np_mul NInf NInf = PInf"

fun np_div :: "float64 \<Rightarrow> float64 \<Rightarrow> float64" where
  "np_div NaN _ = NaN"
| "np_div _ NaN = NaN"
| "np_div (Fin a) (Fin b) =
     (if b \<noteq> 0 then Fin (a / b) else if a = 0 then NaN else signed_inf (0 < a))"
| "np_div (Fin a) PInf = Fin 0"
| "np_div (Fin a) NInf = Fin 0"
| "np_div PInf (Fin b) = signed_inf (0 \<le> b)"
| "np_div NInf (Fin b) = signed_inf (b < 0)"
| "np_div PInf PInf = NaN"
| "np_div PInf NInf = NaN"
| "np_div NInf PInf = NaN"
| "np_div NInf NInf = NaN"

fun np_sqrt :: "float64 \<Rightarrow> float64" where
  "np_sqrt (Fin a) = (if a < 0 then NaN else Fin (sqrt a))"
| "np_sqrt PInf = PInf"
| "np_sqrt NInf = NaN"
| "np_sqrt NaN = NaN"

fun np_log10 :: "float64 \<Rightarrow> float64" where
  "np_log10 (Fin a) = (if a < 0 then NaN else if a = 0 then NInf else Fin (log 10 a))"
| "np_log10 PInf = PInf"
| "np_log10 NInf = NaN"
| "np_log10 NaN = NaN"

text \<open>The comparison \<^verbatim>\<open>a < b\<close>: false as soon as one side is NaN.\<close>

fun np_less :: "float64 \<Rightarrow> float64 \<Rightarrow> bool" where
  "np_less NaN _ = False"
| "np_less _ NaN = False"
| "np_less (Fin a) (Fin b) = (a < b)"
| "np_less (Fin a) PInf = True"
| "np_less (Fin a) NInf = False"
| "np_less PInf _ = False"
| "np_less NInf NInf = False"
| "np_less NInf _ = True"

text \<open>\<^verbatim>\<open>x ** 2\<close> on an array squares each entry.\<close>

definition np_square :: "float64 \<Rightarrow> float64" where
  "np_square x = np_mul x x"

subsection \<open>One-dimensional arrays\<close>

text \<open>
  A one-dimensional array is the list of its entries. The exceptions of the
  interpreter and of the libraries that the script can meet are values.
\<close>

datatype exn =
    ZeroDivisionError
  | ValueError
  | IndexError
  | KeyError string
  | NameError string
  | UnboundLocalError string
  | OverflowError

definition np_sum :: "float64 list \<Rightarrow> float64" where
  "np_sum xs = foldl np_add (Fin 0) xs"

text \<open>\<^verbatim>\<open>np.mean\<close> of an empty array is \<^verbatim>\<open>0.0 / 0\<close>, a NaN with a warning.\<close>

definition np_mean :: "float64 list \<Rightarrow> float64" where
  "np_mean xs = np_div (np_sum xs) (Fin (real (length xs)))"

text \<open>
  \<^verbatim>\<open>a - b\<close> on arrays: entry by entry when the lengths agree; an array of length one
  is broadcast against the other; any other pair of lengths raises ValueError.
\<close>

definition np_vsub :: "float64 list \<Rightarrow> float64 list \<Rightarrow> exn + float64 list" where
  "np_vsub xs ys =
     (if length xs = length ys then Inr (map2 np_sub xs ys)
      else if length xs = 1 then Inr (map (\<lambda>y. np_sub (hd xs) y) ys)
      else if length ys = 1 then Inr (map (\<lambda>x. np_sub x (hd ys)) xs)
      else Inl ValueError)"

text \<open>
  \<^verbatim>\<open>numpy.linalg.norm(x, ord=2)\<close> of a one-dimensional real array is
  \<^verbatim>\<open>sqrt(x.dot(x))\<close>.
\<close>

definition np_dot :: "float64 list \<Rightarrow> float64 list \<Rightarrow> float64" where
  "np_dot xs ys = np_sum (map2 np_mul xs ys)"

definition norm_ord2 :: "float64 list \<Rightarrow> float64" where
  "norm_ord2 x = np_sqrt (np_dot x x)"

text \<open>
  \<^verbatim>\<open>np.linspace(a, b, n)\<close> and \<^verbatim>\<open>np.arange(start, stop, step)\<close> on Python floats. The
  length of an \<^verbatim>\<open>arange\<close> is the ceiling of \<^verbatim>\<open>(stop - start) / step\<close>, a division of
  Python floats that raises on a zero step.
\<close>

definition np_linspace :: "real \<Rightarrow> real \<Rightarrow> nat \<Rightarrow> real list" where
  "np_linspace a b n =
     (if n = 1 then [a]
      else map (\<lambda>i. a + real i * ((b - a) / real (n - 1))) [0..<n])"

definition np_arange :: "real \<Rightarrow> real \<Rightarrow> real \<Rightarrow> exn + real list" where
  "np_arange start stop step =
     (if step = 0 then Inl ZeroDivisionError
      else Inr (map (\<lambda>i. start + real i * step) [0..<nat \<lceil>(stop - start) / step\<rceil>]))"

subsection \<open>Rounding to a double\<close>

text \<open>
  Rounding to the nearest double, ties to the even significand: a double has 53
  significant bits, and below 2 to the power -1022 the spacing stays that of the
  smallest normal numbers. A result whose magnitude after rounding is 2 to the
  power 1024 or more is an infinity.
  Addition, multiplication and division of doubles are the exact operation followed
  by this rounding (IEEE 754), in Python and in numpy alike.
\<close>

definition round_to_even :: "real \<Rightarrow> int" where
  "round_to_even q =
     (let f = \<lfloor>q\<rfloor> in
      if q - of_int f < 1 / 2 then f
      else if 1 / 2 < q - of_int f then f + 1
      else if even f then f else f + 1)"

definition binade :: "real \<Rightarrow> int" where
  "binade x = max \<lfloor>log 2 \<bar>x\<bar>\<rfloor> (- 1022)"

definition round64 :: "real \<Rightarrow> real" where
  "round64 x =
     (if x = 0 then 0
      else of_int (round_to_even (x / 2 powi (binade x - 52))) * 2 powi (binade x - 52))"

definition to_double :: "real \<Rightarrow> float64" where
  "to_double x = (if 2 ^ 1024 \<le> \<bar>round64 x\<bar> then signed_inf (0 < x) else Fin (round64 x))"

fun round_result :: "float64 \<Rightarrow> float64" where
  "round_result (Fin a) = to_double a"
| "round_result PInf = PInf"
| "round_result NInf = NInf"
| "round_result NaN = NaN"

definition fl_add :: "float64 \<Rightarrow> float64 \<Rightarrow> float64" where
  "fl_add a b = round_result (np_add a b)"

definition fl_mul :: "float64 \<Rightarrow> float64 \<Rightarrow> float64" where
  "fl_mul a b = round_result (np_mul a b)"

text \<open>
  \<^verbatim>\<open>a / b\<close> on Python numbers of which one is a float, and on two Python integers:
  ZeroDivisionError on a zero divisor, else the rounded quotient (an infinity when
  it is out of range: the division of floats does not raise on overflow).
\<close>

definition py_truediv :: "real \<Rightarrow> real \<Rightarrow> exn + float64" where
  "py_truediv a b = (if b = 0 then Inl ZeroDivisionError else Inr (to_double (a / b)))"

text \<open>
  \<^verbatim>\<open>x ** y\<close> on Python floats calls the function \<^verbatim>\<open>pow\<close> of the C library, a parameter
  \<open>pw\<close> here (its last bit is not fixed by any standard). Python raises
  OverflowError when \<^verbatim>\<open>pow\<close> gives an infinity on finite arguments, and
  ZeroDivisionError on zero to a negative power. (A negative base with a
  fractional exponent gives a complex number; the bases of the script are
  positive.) On an array, \<^verbatim>\<open>x ** y\<close> is numpy's \<^verbatim>\<open>power\<close>: \<^verbatim>\<open>pow\<close> on each entry, and
  no exception.
\<close>

fun py_pow :: "(float64 \<Rightarrow> float64 \<Rightarrow> float64) \<Rightarrow> float64 \<Rightarrow> float64 \<Rightarrow> exn + float64" where
  "py_pow pw (Fin a) (Fin b) =
     (if a = 0 \<and> b < 0 then Inl ZeroDivisionError
      else if pw (Fin a) (Fin b) = PInf \<or> pw (Fin a) (Fin b) = NInf then Inl OverflowError
      else Inr (pw (Fin a) (Fin b)))"
| "py_pow pw x y = Inr (pw x y)"

section \<open>Utility functions\<close>

text \<open>
  \<^verbatim>\<open>Signal_to_noise_Ratio(signal, noise)\<close>, lines 80 to 87: the empty noise array is
  tested first, and only the other branch touches the arrays. The divisions by
  \<^verbatim>\<open>len(...)\<close> are numpy divisions (the numerator is a numpy scalar).
\<close>

definition Signal_to_noise_Ratio :: "float64 list \<Rightarrow> float64 list \<Rightarrow> float64" where
  "Signal_to_noise_Ratio signal noise =
     (if length noise = 0 then Fin 0
      else np_mul (Fin 10)
             (np_log10
                (np_div (np_div (np_sum (map np_square signal)) (Fin (real (length signal))))
                        (np_div (np_mean (map np_square noise)) (Fin (real (length noise)))))))"

text \<open>
  \<^verbatim>\<open>Iatsenko_style(s1, s2)\<close>, lines 98 to 106; \<^verbatim>\<open>s1\<close> is the reference. The bare
  \<^verbatim>\<open>except\<close> turns every exception of the \<^verbatim>\<open>try\<close> block into NaN; the only one
  the arrays can raise is the ValueError of the subtraction. The division is a
  numpy division of two numpy scalars and does not raise.
\<close>

definition Iatsenko_style :: "float64 list \<Rightarrow> float64 list \<Rightarrow> float64" where
  "Iatsenko_style s1 s2 =
     (case np_vsub s1 s2 of
        Inl e \<Rightarrow> NaN
      | Inr d \<Rightarrow>
          np_div (np_mean (map np_square d))
                 (np_mean (map np_square (map (\<lambda>x. np_sub x (np_mean s1)) s1))))"

text \<open>
  \<^verbatim>\<open>Geodesic_curve_distance(x1, y1, x2, y2)\<close>, lines 118 to 133. \<^verbatim>\<open>np.column_stack\<close>
  raises ValueError on columns of different lengths; \<^verbatim>\<open>geod_sphere\<close> is the routine
  of the library \<^verbatim>\<open>fdasrsf\<close>, a parameter here, applied to the two arrays of two rows.
\<close>

definition Geodesic_curve_distance ::
  "(float64 list list \<Rightarrow> float64 list list \<Rightarrow> float64) \<Rightarrow>
   float64 list \<Rightarrow> float64 list \<Rightarrow> float64 list \<Rightarrow> float64 list \<Rightarrow> exn + float64" where
  "Geodesic_curve_distance geod_sphere x1 y1 x2 y2 =
     (if length x1 \<noteq> length y1 then Inl ValueError
      else if length x2 \<noteq> length y2 then Inl ValueError
      else Inr (geod_sphere [x1, y1] [x2, y2]))"

subsection \<open>The instantaneous frequency laws\<close>

text \<open>
  What \<^verbatim>\<open>print\<close> writes: one list of items for each call.
\<close>

datatype pyval = PyEmptyList | PyInt int

datatype out =
    OStr string
  | OInt int
  | OShape "nat \<times> nat"
  | OFloat float64
  | ODict "(string \<times> pyval) list"

text \<open>
  \<^verbatim>\<open>set_if_fun(signal_id, T)\<close>, lines 135 to 169, with the \<^verbatim>\<open>pow\<close> of the C library
  as the parameter \<open>pw\<close>. The result is the pair of the lines printed and of what the
  call gives: the frequency law, a function applied to every entry of an array of
  times, or the exception raised. \<^verbatim>\<open>T\<close> is a Python float, so \<^verbatim>\<open>1/T\<close> and
  \<^verbatim>\<open>(omega_1-omega_0)/T\<close> are divisions of floats; \<^verbatim>\<open>omega_1/omega_0\<close> divides two
  integers and is the rounded quotient; the power that gives \<^verbatim>\<open>alpha\<close> is Python's,
  the power inside the law is numpy's. In the last branch the message is printed
  and \<^verbatim>\<open>if_fun\<close> has no binding, so \<^verbatim>\<open>return if_fun\<close> raises UnboundLocalError.
\<close>

definition set_if_fun ::
  "(float64 \<Rightarrow> float64 \<Rightarrow> float64) \<Rightarrow> string \<Rightarrow> real \<Rightarrow>
   out list list \<times> (exn + (real \<Rightarrow> float64))" where
  "set_if_fun pw signal_id T =
     (if signal_id = ''pure_tone'' then
        (let omega = 2000 in ([], Inr (\<lambda>t. fl_mul (Fin omega) (Fin 1))))
      else if signal_id = ''exponential_downchirp'' then
        (let omega_1 = 500; omega_0 = 2000 in
         case py_truediv 1 T of
           Inl e \<Rightarrow> ([], Inl e)
         | Inr inv_T \<Rightarrow>
             (case py_pow pw (to_double (omega_1 / omega_0)) inv_T of
                Inl e \<Rightarrow> ([], Inl e)
              | Inr alpha \<Rightarrow> ([], Inr (\<lambda>x. fl_mul (Fin omega_0) (pw alpha (Fin x))))))
      else if signal_id = ''exponential_upchirp'' then
        (let omega_1 = 2000; omega_0 = 500 in
         case py_truediv 1 T of
           Inl e \<Rightarrow> ([], Inl e)
         | Inr inv_T \<Rightarrow>
             (case py_pow pw (to_double (omega_1 / omega_0)) inv_T of
                Inl e \<Rightarrow> ([], Inl e)
              | Inr alpha \<Rightarrow> ([], Inr (\<lambda>x. fl_mul (Fin omega_0) (pw alpha (Fin x))))))
      else if signal_id = ''linear_downchirp'' then
        (let omega_1 = 500; omega_0 = 2000 in
         case py_truediv (omega_1 - omega_0) T of
           Inl e \<Rightarrow> ([], Inl e)
         | Inr c \<Rightarrow> ([], Inr (\<lambda>x. fl_add (Fin omega_0) (fl_mul c (Fin x)))))
      else if signal_id = ''linear_upchirp'' then
        (let omega_1 = 2000; omega_0 = 500 in
         case py_truediv (omega_1 - omega_0) T of
           Inl e \<Rightarrow> ([], Inl e)
         | Inr c \<Rightarrow> ([], Inr (\<lambda>x. fl_add (Fin omega_0) (fl_mul c (Fin x)))))
      else
        ([[OStr ''ERROR SIGNAL ID NOT CONSISTENT WITH THE IF WE CAN HANDLE'']],
         Inl (UnboundLocalError ''if_fun'')))"

section \<open>The parameter sweep\<close>

subsection \<open>Two-dimensional arrays and the libraries the sweep calls\<close>

text \<open>
  A two-dimensional array is its shape and its entries. \<^verbatim>\<open>A.T\<close> swaps the axes;
  \<^verbatim>\<open>A[0, :]\<close> raises IndexError on an array with no row.
\<close>

record array2 =
  shape0 :: nat
  shape1 :: nat
  entry :: "nat \<Rightarrow> nat \<Rightarrow> float64"

definition np_T :: "array2 \<Rightarrow> array2" where
  "np_T A = \<lparr>shape0 = shape1 A, shape1 = shape0 A, entry = (\<lambda>i j. entry A j i)\<rparr>"

definition row0 :: "array2 \<Rightarrow> exn + float64 list" where
  "row0 A = (if shape0 A = 0 then Inl IndexError else Inr (map (entry A 0) [0..<shape1 A]))"

text \<open>
  The modules \<^verbatim>\<open>SignalProc\<close>, \<^verbatim>\<open>IF\<close> and \<^verbatim>\<open>fdasrsf\<close> are not part of the script: what
  they compute is a parameter of the model. \<^verbatim>\<open>readWav\<close> gives the sample rate and the
  number of samples of the file at a path (Python integers, not negative);
  \<^verbatim>\<open>spectrogram\<close> takes the window width, the increment, the window type, the
  spectrogram type and the frequency scale; \<^verbatim>\<open>ecurve\<close> takes the pair \<^verbatim>\<open>pars\<close>, the
  spectrogram, the frequency axis and the pair \<^verbatim>\<open>wopt\<close>. They are taken to return.
  \<^verbatim>\<open>libm_pow\<close> is the \<^verbatim>\<open>pow\<close> of the C library behind \<^verbatim>\<open>**\<close>.
\<close>

record wav =
  sampleRate :: nat
  fileLength :: nat
  samples :: "float64 list"

record env =
  readWav :: "string \<Rightarrow> wav"
  spectrogram :: "wav \<Rightarrow> int \<Rightarrow> int \<Rightarrow> string \<Rightarrow> string \<Rightarrow> string \<Rightarrow> array2"
  convertHztoMel :: "real \<Rightarrow> real"
  ecurve :: "real \<times> real \<Rightarrow> array2 \<Rightarrow> real list \<Rightarrow> nat \<times> int \<Rightarrow> array2"
  geod_sphere :: "float64 list list \<Rightarrow> float64 list list \<Rightarrow> float64"
  libm_pow :: "float64 \<Rightarrow> float64 \<Rightarrow> float64"

text \<open>The arguments of \<^verbatim>\<open>find_optimal_spec_IF_parameters\<close>.\<close>

record args =
  signal_path :: string
  save_dir :: string
  signal_id :: string
  spectrogram_type :: string
  freq_scale :: string
  norm_type :: string
  opt_metric :: string

text \<open>
  The five lists the loops run over, lines 194 to 200. \<^verbatim>\<open>source_grid\<close> holds the
  values of the script; the hop fractions are written as the fractions they stand
  for.
\<close>

record grid =
  win :: "int list"
  hop_perc :: "real list"
  win_type :: "string list"
  alpha_list :: "real list"
  beta_list :: "real list"

definition source_grid :: grid where
  "source_grid =
     \<lparr>win = [32, 64, 128, 256, 1024, 2048, 4096],
      hop_perc = [1 / 10, 1 / 4, 1 / 2, 3 / 4, 9 / 10],
      win_type = [''Hann'', ''Parzen'', ''Welch'', ''Hamming'', ''Blackman'', ''BlackmanHarris''],
      alpha_list = [0, 1 / 4, 1 / 2, 1, 2, 4, 6, 8, 10, 15, 20],
      beta_list = [0, 1 / 4, 1 / 2, 1, 2, 4, 6, 8, 10, 15, 20]\<rparr>"

subsection \<open>The state of a run\<close>

text \<open>
  A cell of the log is what \<^verbatim>\<open>csv.DictWriter\<close> is given for it; a key of
  \<^verbatim>\<open>fieldnames\<close> that the row dictionary lacks is written as the empty string, and a
  key of the dictionary outside \<^verbatim>\<open>fieldnames\<close> raises ValueError.
\<close>

datatype cell = CStr string | CInt int | CFloat float64

definition fieldnames :: "string list" where
  "fieldnames =
     [''window_width'', ''incr'', ''window type'', ''alpha'', ''beta'', ''spec dim'', ''measure'']"

definition DictWriter_row :: "string list \<Rightarrow> (string \<times> cell) list \<Rightarrow> exn + cell list" where
  "DictWriter_row names rowdict =
     (if list_all (\<lambda>k. k \<in> set names) (map fst rowdict)
      then Inr (map (\<lambda>k. case map_of rowdict k of None \<Rightarrow> CStr [] | Some v \<Rightarrow> v) names)
      else Inl ValueError)"

text \<open>
  The state: the rows of the log file, the lines printed, the running best value
  \<^verbatim>\<open>opt\<close>, the dictionary \<^verbatim>\<open>opt_param\<close> (in insertion order), and whether the locals
  \<^verbatim>\<open>TFR\<close> and \<^verbatim>\<open>fstep\<close> are bound, which the \<^verbatim>\<open>del\<close> statement of line 269 depends on.
\<close>

record state =
  csv_file :: "cell list list"
  stdout :: "out list list"
  opt :: float64
  opt_param :: "(string \<times> pyval) list"
  TFR_bound :: bool
  fstep_bound :: bool

definition print :: "out list \<Rightarrow> state \<Rightarrow> state" where
  "print items st = st\<lparr>stdout := stdout st @ [items]\<rparr>"

fun dict_set :: "(string \<times> pyval) list \<Rightarrow> string \<Rightarrow> pyval \<Rightarrow> (string \<times> pyval) list" where
  "dict_set [] k v = [(k, v)]"
| "dict_set ((k', v') # d) k v = (if k' = k then (k, v) # d else (k', v') # dict_set d k v)"

text \<open>\<^verbatim>\<open>int(x)\<close> on a float truncates towards zero.\<close>

definition py_int :: "real \<Rightarrow> int" where
  "py_int x = (if 0 \<le> x then \<lfloor>x\<rfloor> else \<lceil>x\<rceil>)"

text \<open>
  Lines 202 to 211: \<^verbatim>\<open>opt\<close> is infinity, \<^verbatim>\<open>opt_param\<close> holds five empty lists, the log
  file is opened for writing (which empties it) and the header is written.
\<close>

definition start_state :: state where
  "start_state =
     \<lparr>csv_file = [map CStr fieldnames],
      stdout = [],
      opt = PInf,
      opt_param = [(''window_lenght'', PyEmptyList), (''hop'', PyEmptyList),
                   (''window_type'', PyEmptyList), (''alpha'', PyEmptyList),
                   (''beta'', PyEmptyList)],
      TFR_bound = False,
      fstep_bound = False\<rparr>"

subsection \<open>One grid point\<close>

text \<open>
  Lines 231 to 238, the frequency axis. \<^verbatim>\<open>(fs / 2) / np.shape(TFR)[0]\<close> divides a
  Python float by a Python integer and raises on zero.
\<close>

definition frequency_axis :: "env \<Rightarrow> string \<Rightarrow> nat \<Rightarrow> array2 \<Rightarrow> exn + real list" where
  "frequency_axis env scale fs TFR =
     (if scale = ''Linear'' then
        (if shape0 TFR = 0 then Inl ZeroDivisionError
         else (let fstep = (real fs / 2) / real (shape0 TFR)
               in np_arange fstep (real fs / 2 + fstep) fstep))
      else
        (let nfilters = 40;
             freqarr = np_linspace (convertHztoMel env 0) (convertHztoMel env (real fs / 2))
                         (nfilters + 1)
         in Inr (tl freqarr)))"

text \<open>
  Line 249, the L2 measure: the norm is a numpy scalar, so the division by the
  product of the two dimensions of the spectrogram does not raise.
\<close>

definition L2_measure :: "float64 list \<Rightarrow> float64 list \<Rightarrow> nat \<times> nat \<Rightarrow> exn + float64" where
  "L2_measure tf inst_freq shape =
     (case np_vsub tf inst_freq of
        Inl e \<Rightarrow> Inl e
      | Inr d \<Rightarrow> Inr (np_div (norm_ord2 d) (Fin (real (fst shape * snd shape)))))"

text \<open>Lines 248 to 254: every metric name other than the first two is the geodesic one.\<close>

definition measure_of ::
  "env \<Rightarrow> string \<Rightarrow> array2 \<Rightarrow> float64 list \<Rightarrow> float64 list \<Rightarrow> real \<Rightarrow> exn + float64" where
  "measure_of env metric TFR tf inst_freq T =
     (if metric = ''L2'' then L2_measure tf inst_freq (shape0 TFR, shape1 TFR)
      else if metric = ''Iatsenko'' then Inr (Iatsenko_style inst_freq tf)
      else (let t_support = map Fin (np_linspace 0 T (length tf))
            in Geodesic_curve_distance (geod_sphere env) t_support tf t_support inst_freq))"

text \<open>What lines 219 to 254 hand over to the rest of the loop body.\<close>

record point =
  p_window_width :: int
  p_incr :: int
  p_spec_dim :: nat
  p_tf :: "float64 list"
  p_inst_freq :: "float64 list"
  p_measure2check :: float64

text \<open>
  Lines 219 to 254: the spectrogram, the frequency axis, the extracted curve, the
  ground truth sampled at as many times as the curve has entries, and the measure.
  \<^verbatim>\<open>sp.fileLength/fs\<close> divides two Python integers.
\<close>

definition evaluate_point ::
  "env \<Rightarrow> args \<Rightarrow> int \<Rightarrow> real \<Rightarrow> string \<Rightarrow> real \<Rightarrow> real \<Rightarrow> state \<Rightarrow> (exn + point) \<times> state" where
  "evaluate_point env a win_len hop window_type alpha beta st =
     (let window_width = win_len;
          incr = py_int (real_of_int win_len * hop);
          st1 = print [OInt window_width, OInt incr] st;
          sp = readWav env (signal_path a);
          fs = sampleRate sp;
          TFR = np_T (spectrogram env sp window_width incr window_type
                        (spectrogram_type a) (freq_scale a));
          st2 = print [OStr ''spec dim'', OShape (shape0 TFR, shape1 TFR)]
                  (st1\<lparr>TFR_bound := True\<rparr>)
      in case frequency_axis env (freq_scale a) fs TFR of
           Inl e \<Rightarrow> (Inl e, st2)
         | Inr freqarr \<Rightarrow>
             (let st3 = (if freq_scale a = ''Linear'' then st2\<lparr>fstep_bound := True\<rparr> else st2);
                  wopt = (fs, window_width);
                  tfsupp = ecurve env (alpha, beta) TFR freqarr wopt
              in if fs = 0 then (Inl ZeroDivisionError, st3)
                 else
                   (let T = real (fileLength sp) / real fs in
                    case set_if_fun (libm_pow env) (signal_id a) T of
                      (printed, Inl e) \<Rightarrow> (Inl e, st3\<lparr>stdout := stdout st3 @ printed\<rparr>)
                    | (printed, Inr inst_freq_fun) \<Rightarrow>
                        (let st4 = st3\<lparr>stdout := stdout st3 @ printed\<rparr> in
                         case row0 tfsupp of
                           Inl e \<Rightarrow> (Inl e, st4)
                         | Inr tf \<Rightarrow>
                             (let inst_freq = map inst_freq_fun (np_linspace 0 T (length tf))
                              in case measure_of env (opt_metric a) TFR tf inst_freq T of
                                   Inl e \<Rightarrow> (Inl e, st4)
                                 | Inr measure2check \<Rightarrow>
                                     (Inr \<lparr>p_window_width = window_width, p_incr = incr,
                                           p_spec_dim = shape0 TFR * shape1 TFR,
                                           p_tf = tf, p_inst_freq = inst_freq,
                                           p_measure2check = measure2check\<rparr>, st4))))))"

text \<open>
  Lines 256 to 267: the row is appended to the log, then the measure is compared
  with \<^verbatim>\<open>opt\<close>. The row dictionary has the four keys of the source.
\<close>

definition record_point :: "point \<Rightarrow> state \<Rightarrow> exn option \<times> state" where
  "record_point p st =
     (case DictWriter_row fieldnames
             [(''window_width'', CInt (p_window_width p)), (''incr'', CInt (p_incr p)),
              (''spec dim'', CInt (int (p_spec_dim p))),
              (''measure'', CFloat (p_measure2check p))] of
        Inl e \<Rightarrow> (Some e, st)
      | Inr row \<Rightarrow>
          (let st1 = st\<lparr>csv_file := csv_file st @ [row]\<rparr> in
           if np_less (p_measure2check p) (opt st1) then
             (let st2 = print [OStr ''optimal parameters updated:'', ODict (opt_param st1)] st1
              in case np_vsub (p_tf p) (p_inst_freq p) of
                   Inl e \<Rightarrow> (Some e, st2)
                 | Inr d \<Rightarrow>
                     (let st3 = print [OFloat (norm_ord2 d)] st2
                      in (None, st3\<lparr>opt := p_measure2check p,
                                     opt_param := dict_set
                                       (dict_set (opt_param st3) ''win_len''
                                          (PyInt (p_window_width p)))
                                       ''hop'' (PyInt (p_incr p))\<rparr>)))
           else (None, st1)))"

definition grid_point_body ::
  "env \<Rightarrow> args \<Rightarrow> int \<Rightarrow> real \<Rightarrow> string \<Rightarrow> real \<Rightarrow> real \<Rightarrow> state \<Rightarrow> exn option \<times> state" where
  "grid_point_body env a win_len hop window_type alpha beta st =
     (case evaluate_point env a win_len hop window_type alpha beta st of
        (Inl e, st') \<Rightarrow> (Some e, st')
      | (Inr p, st') \<Rightarrow> record_point p st')"

subsection \<open>The loops and the return\<close>

text \<open>A \<^verbatim>\<open>for\<close> loop: the body runs on each element in turn until one raises.\<close>

fun for_each :: "'a list \<Rightarrow> ('a \<Rightarrow> state \<Rightarrow> exn option \<times> state) \<Rightarrow> state \<Rightarrow> exn option \<times> state" where
  "for_each [] body st = (None, st)"
| "for_each (x # xs) body st =
     (case body x st of
        (Some e, st') \<Rightarrow> (Some e, st')
      | (None, st') \<Rightarrow> for_each xs body st')"

text \<open>
  Line 269, at the end of each iteration over the hops: \<^verbatim>\<open>del\<close> unbinds its names
  from left to right and raises UnboundLocalError at the first one with no binding.
  \<^verbatim>\<open>fstep\<close> is bound only on the linear frequency scale.
\<close>

definition del_locals :: "state \<Rightarrow> exn option \<times> state" where
  "del_locals st =
     (if \<not> TFR_bound st then (Some (UnboundLocalError ''TFR''), st)
      else if \<not> fstep_bound st then (Some (UnboundLocalError ''fstep''), st\<lparr>TFR_bound := False\<rparr>)
      else (None, st\<lparr>TFR_bound := False, fstep_bound := False\<rparr>))"

definition sweep_loops :: "grid \<Rightarrow> env \<Rightarrow> args \<Rightarrow> state \<Rightarrow> exn option \<times> state" where
  "sweep_loops g env a =
     for_each (win g) (\<lambda>win_len.
       for_each (hop_perc g) (\<lambda>hop st.
         case for_each (win_type g) (\<lambda>window_type.
                for_each (alpha_list g) (\<lambda>alpha.
                  for_each (beta_list g) (\<lambda>beta.
                    grid_point_body env a win_len hop window_type alpha beta))) st of
           (Some e, st') \<Rightarrow> (Some e, st')
         | (None, st') \<Rightarrow> del_locals st'))"

text \<open>
  The whole function over a grid. After the loops, lines 271 to 274: the dictionary
  is printed, the keys \<^verbatim>\<open>win_len\<close> and \<^verbatim>\<open>hop\<close> are read (KeyError when absent), and
  the \<^verbatim>\<open>return\<close> statement reads \<^verbatim>\<open>window_length_opt\<close>, a name with no binding
  anywhere in the module.
\<close>

definition sweep ::
  "grid \<Rightarrow> env \<Rightarrow> args \<Rightarrow> (exn + int \<times> int \<times> string \<times> real \<times> real) \<times> state" where
  "sweep g env a =
     (case sweep_loops g env a start_state of
        (Some e, st) \<Rightarrow> (Inl e, st)
      | (None, st) \<Rightarrow>
          (let st1 = print [OStr ''optimal parameters \<newline>'', ODict (opt_param st)] st in
           case map_of (opt_param st1) ''win_len'' of
             None \<Rightarrow> (Inl (KeyError ''win_len''), st1)
           | Some window_width \<Rightarrow>
               (case map_of (opt_param st1) ''hop'' of
                  None \<Rightarrow> (Inl (KeyError ''hop''), st1)
                | Some incr \<Rightarrow> (Inl (NameError ''window_length_opt''), st1))))"

definition find_optimal_spec_IF_parameters ::
  "env \<Rightarrow> string \<Rightarrow> string \<Rightarrow> string \<Rightarrow> string \<Rightarrow> string \<Rightarrow> string \<Rightarrow> string \<Rightarrow>
   (exn + int \<times> int \<times> string \<times> real \<times> real) \<times> state" where
  "find_optimal_spec_IF_parameters env signal_path' save_dir' signal_id' spectrogram_type'
       freq_scale' norm_type' opt_metric' =
     sweep source_grid env
       \<lparr>signal_path = signal_path', save_dir = save_dir', signal_id = signal_id',
        spectrogram_type = spectrogram_type', freq_scale = freq_scale',
        norm_type = norm_type', opt_metric = opt_metric'\<rparr>"

section \<open>Notions of the specification\<close>


definition mean_of :: "real list \<Rightarrow> real" where
  "mean_of rs = sum_list rs / real (length rs)"

definition variance_about_mean :: "real list \<Rightarrow> real" where
  "variance_about_mean rs = mean_of (map (\<lambda>x. (x - mean_of rs)\<^sup>2) rs)"

text \<open>
  The row that a grid point leaves in the log, and the measures a log holds: the
  seventh cell of every row after the header.
\<close>

definition log_row :: "point \<Rightarrow> cell list" where
  "log_row p =
     [CInt (p_window_width p), CInt (p_incr p), CStr [], CStr [], CStr [],
      CInt (int (p_spec_dim p)), CFloat (p_measure2check p)]"

fun measure_cell :: "cell \<Rightarrow> float64 list" where
  "measure_cell (CFloat m) = [m]"
| "measure_cell (CStr s) = []"
| "measure_cell (CInt i) = []"

definition logged_measures :: "cell list list \<Rightarrow> float64 list" where
  "logged_measures rows =
     concat (map (\<lambda>row. concat (map measure_cell (drop 6 row))) (tl rows))"

text \<open>
  \<open>b\<close> is the minimum of infinity and of the measures \<open>ms\<close>, NaN left aside: it is
  infinity or one of them, and it is below every one of them that is a number.
\<close>

definition is_min_of :: "float64 \<Rightarrow> float64 list \<Rightarrow> bool" where
  "is_min_of b ms \<longleftrightarrow>
     b \<noteq> NaN \<and> (b = PInf \<or> b \<in> set ms) \<and>
     (\<forall>m \<in> set ms. m \<noteq> NaN \<longrightarrow> np_less b m \<or> b = m)"

definition best_inv :: "state \<Rightarrow> bool" where
  "best_inv st \<longleftrightarrow> csv_file st \<noteq> [] \<and> is_min_of (opt st) (logged_measures (csv_file st))"

subsection \<open>A small environment to run the sweep on\<close>

text \<open>
  A file of 16 samples at 8 samples per second; a spectrogram of 2 frames and 3
  bins; an extraction that gives one row, \<open>2000 + alpha\<close> in the first frame and
  \<open>2000\<close> in the others. In \<open>no_rows_env\<close> the extraction gives an array with no row
  when \<open>alpha\<close> is 1. The \<^verbatim>\<open>pow\<close> of the environment, \<open>ideal_pow\<close>, rounds the exact
  power correctly on a positive base and follows the C standard on zero and on the
  infinities; on a negative base with a finite exponent, which the script never
  has, it only knows the exponent zero.
\<close>

fun ideal_pow :: "float64 \<Rightarrow> float64 \<Rightarrow> float64" where
  "ideal_pow NaN (Fin b) = (if b = 0 then Fin 1 else NaN)"
| "ideal_pow (Fin a) NaN = (if a = 1 then Fin 1 else NaN)"
| "ideal_pow x NaN = NaN"
| "ideal_pow NaN y = NaN"
| "ideal_pow (Fin a) (Fin b) =
     (if b = 0 then Fin 1
      else if 0 < a then to_double (a powr b)
      else if a = 0 then (if 0 < b then Fin 0 else PInf)
      else NaN)"
| "ideal_pow (Fin a) PInf =
     (if \<bar>a\<bar> < 1 then Fin 0 else if \<bar>a\<bar> = 1 then Fin 1 else PInf)"
| "ideal_pow (Fin a) NInf =
     (if \<bar>a\<bar> < 1 then PInf else if \<bar>a\<bar> = 1 then Fin 1 else Fin 0)"
| "ideal_pow PInf (Fin b) = (if b = 0 then Fin 1 else if 0 < b then PInf else Fin 0)"
| "ideal_pow PInf PInf = PInf"
| "ideal_pow PInf NInf = Fin 0"
| "ideal_pow NInf (Fin b) = (if b = 0 then Fin 1 else NaN)"
| "ideal_pow NInf PInf = PInf"
| "ideal_pow NInf NInf = Fin 0"

definition demo_wav :: wav where
  "demo_wav = \<lparr>sampleRate = 8, fileLength = 16, samples = []\<rparr>"

definition demo_env :: env where
  "demo_env =
     \<lparr>readWav = (\<lambda>path. demo_wav),
      spectrogram = (\<lambda>sp window_width incr window_type sgType sgScale.
                      \<lparr>shape0 = 2, shape1 = 3, entry = (\<lambda>i j. Fin 0)\<rparr>),
      convertHztoMel = (\<lambda>f. f),
      ecurve = (\<lambda>pars TFR freqarr wopt.
                  \<lparr>shape0 = 1, shape1 = shape1 TFR,
                   entry = (\<lambda>i j. if j = 0 then Fin (2000 + fst pars) else Fin 2000)\<rparr>),
      geod_sphere = (\<lambda>beta1 beta2. Fin 0),
      libm_pow = ideal_pow\<rparr>"


definition demo_args :: "string \<Rightarrow> string \<Rightarrow> args" where
  "demo_args sid metric =
     \<lparr>signal_path = ''pure_tone00.wav'', save_dir = ''out'', signal_id = sid,
      spectrogram_type = ''Standard'', freq_scale = ''Linear'', norm_type = ''Standard'',
      opt_metric = metric\<rparr>"

definition two_point_grid :: "real \<Rightarrow> real \<Rightarrow> grid" where
  "two_point_grid alpha1 alpha2 =
     \<lparr>win = [32], hop_perc = [1 / 2], win_type = [''Hann''], alpha_list = [alpha1, alpha2],
      beta_list = [0]\<rparr>"

subsection \<open>The grid as a list\<close>



section \<open>Arithmetic on finite values\<close>












section \<open>Rounding\<close>

lemma two_powr_of_int: "(2::real) powr real_of_int n = 2 powi n"
  by (rule powr_real_of_int') simp_all

lemma binade_eq:
  assumes "2 powi e \<le> \<bar>x\<bar>" and "\<bar>x\<bar> < 2 powi (e + 1)" and "- 1022 \<le> e"
  shows "binade x = e"
proof -
  have "(0::real) < 2 powi e" by simp
  with assms(1) have pos: "0 < \<bar>x\<bar>" by linarith
  have "2 powr real_of_int e \<le> \<bar>x\<bar>" using assms(1) by (simp only: two_powr_of_int)
  then have "real_of_int e \<le> log 2 \<bar>x\<bar>" using pos by (simp add: le_log_iff)
  moreover have "\<bar>x\<bar> < 2 powr real_of_int (e + 1)"
    using assms(2) by (simp only: two_powr_of_int)
  then have "log 2 \<bar>x\<bar> < real_of_int (e + 1)" using pos by (simp add: log_less_iff)
  ultimately have "\<lfloor>log 2 \<bar>x\<bar>\<rfloor> = e" by linarith
  then show ?thesis using assms(3) by (simp add: binade_def)
qed

lemma round64_eval:
  assumes "2 powi e \<le> \<bar>x\<bar>" and "\<bar>x\<bar> < 2 powi (e + 1)" and "- 1022 \<le> e"
  shows "round64 x = of_int (round_to_even (x / 2 powi (e - 52))) * 2 powi (e - 52)"
proof -
  have "(0::real) < 2 powi e" by simp
  with assms(1) have "0 < \<bar>x\<bar>" by linarith
  then have "x \<noteq> 0" by simp
  then show ?thesis by (simp add: round64_def binade_eq [OF assms])
qed



lemma round64_2000: "round64 2000 = 2000"
  by (simp add: round64_eval [of 10] round_to_even_def power_int_minus)




lemma to_double_2000: "to_double 2000 = Fin 2000"
  by (simp add: to_double_def round64_2000)



lemma pure_tone_law: "set_if_fun pw ''pure_tone'' T = ([], Inr (\<lambda>t. Fin 2000))"
  by (simp add: set_if_fun_def fl_mul_def to_double_2000)








section \<open>The utility functions\<close>

text \<open>
  Claim C10. Whatever the signal array, \<^verbatim>\<open>Signal_to_noise_Ratio\<close> called with an
  empty noise array returns exactly 0: the test on the length of the noise comes
  before any sum, mean or division.
\<close>

theorem Signal_to_noise_Ratio_empty_noise: "Signal_to_noise_Ratio signal [] = Fin 0"
  by (simp add: Signal_to_noise_Ratio_def)

theorem Signal_to_noise_Ratio_empty_noise_witness:
  "Signal_to_noise_Ratio [Fin 1, Fin 2, NaN] [] = Fin 0"
  using Signal_to_noise_Ratio_empty_noise [of "[Fin 1, Fin 2, NaN]"] by simp

text \<open>
  Claim C3. The claim is that a reference sequence with zero variance about its
  mean makes the Iatsenko metric NaN. The division of line 103 is a numpy
  division: it does not raise, so the \<^verbatim>\<open>except\<close> branch that would give NaN is not
  taken, and a positive mean squared difference over a zero variance is infinity.
  The reference constantly 2000 (the pure tone) against a curve constantly 1000
  has variance zero and the metric is plus infinity.
\<close>

theorem Iatsenko_style_zero_variance_is_infinite:
  "variance_about_mean [2000, 2000] = 0 \<and>
   Iatsenko_style [Fin 2000, Fin 2000] [Fin 1000, Fin 1000] = PInf"
  by (simp add: variance_about_mean_def mean_of_def Iatsenko_style_def np_vsub_def
      np_mean_def np_sum_def np_sub_def np_square_def signed_inf_def)




section \<open>The sweep\<close>

subsection \<open>What one grid point does to the state\<close>

lemma DictWriter_row_point:
  "DictWriter_row fieldnames
     [(''window_width'', CInt (p_window_width p)), (''incr'', CInt (p_incr p)),
      (''spec dim'', CInt (int (p_spec_dim p))), (''measure'', CFloat (p_measure2check p))] =
   Inr (log_row p)"
  by (simp add: DictWriter_row_def fieldnames_def log_row_def)

lemma length_np_linspace: "length (np_linspace a b n) = n"
  by (simp add: np_linspace_def)

lemma evaluate_point_effects:
  assumes "evaluate_point env a w h wt al be st = (r, st')"
  shows "csv_file st' = csv_file st \<and> opt st' = opt st \<and> opt_param st' = opt_param st \<and>
         TFR_bound st' \<and>
         (\<exists>more. stdout st' = stdout st @ [OInt w, OInt (py_int (real_of_int w * h))] # more)"
  using assms
  by (auto simp: evaluate_point_def Let_def print_def split: sum.splits prod.splits if_splits)

lemma evaluate_point_lengths:
  assumes "evaluate_point env a w h wt al be st = (Inr p, st')"
  shows "length (p_tf p) = length (p_inst_freq p)"
  using assms
  by (auto simp: evaluate_point_def Let_def length_np_linspace split: sum.splits prod.splits if_splits)

lemma record_point_ok:
  assumes "length (p_tf p) = length (p_inst_freq p)"
  shows "record_point p st =
     (None, st\<lparr>csv_file := csv_file st @ [log_row p],
               stdout := stdout st @
                 (if np_less (p_measure2check p) (opt st)
                  then [[OStr ''optimal parameters updated:'', ODict (opt_param st)],
                        [OFloat (norm_ord2 (map2 np_sub (p_tf p) (p_inst_freq p)))]]
                  else []),
               opt := (if np_less (p_measure2check p) (opt st) then p_measure2check p else opt st),
               opt_param := (if np_less (p_measure2check p) (opt st)
                             then dict_set (dict_set (opt_param st) ''win_len'' (PyInt (p_window_width p)))
                                    ''hop'' (PyInt (p_incr p))
                             else opt_param st)\<rparr>)"
  using assms
  by (auto simp: record_point_def DictWriter_row_point Let_def print_def np_vsub_def)

lemma np_less_irrefl: "\<not> np_less a a"
  by (cases a) simp_all

lemma np_less_asym: "np_less a b \<Longrightarrow> \<not> np_less b a"
  by (cases a; cases b) simp_all

lemma np_less_trans: "np_less a b \<Longrightarrow> np_less b c \<Longrightarrow> np_less a c"
  by (cases a; cases b; cases c) simp_all

lemma np_less_total: "a \<noteq> NaN \<Longrightarrow> b \<noteq> NaN \<Longrightarrow> np_less a b \<or> a = b \<or> np_less b a"
  by (cases a; cases b) auto

lemma np_less_not_NaN: "np_less a b \<Longrightarrow> a \<noteq> NaN \<and> b \<noteq> NaN"
  by (cases a; cases b) simp_all

lemma logged_measures_append:
  "rows \<noteq> [] \<Longrightarrow> logged_measures (rows @ [log_row p]) = logged_measures rows @ [p_measure2check p]"
  by (cases rows) (simp_all add: logged_measures_def log_row_def)

lemma is_min_of_step:
  assumes "is_min_of b ms"
  shows "is_min_of (if np_less m b then m else b) (ms @ [m])"
proof (cases "np_less m b")
  case True
  then have m: "m \<noteq> NaN" "b \<noteq> NaN" using np_less_not_NaN by blast+
  have "np_less m x \<or> m = x" if "x \<in> set ms" "x \<noteq> NaN" for x
  proof -
    from assms that have "np_less b x \<or> b = x" by (auto simp: is_min_of_def)
    then show ?thesis using True np_less_trans by blast
  qed
  then show ?thesis using True m by (auto simp: is_min_of_def)
next
  case False
  have "np_less b m \<or> b = m" if "m \<noteq> NaN"
    using assms that False np_less_total [of b m] by (auto simp: is_min_of_def)
  then show ?thesis using False assms by (auto simp: is_min_of_def)
qed

lemma grid_point_body_cases:
  assumes "grid_point_body env a w h wt al be st = (r, st')"
  shows "(\<exists>e. r = Some e \<and> evaluate_point env a w h wt al be st = (Inl e, st')) \<or>
         (\<exists>p st1. r = None \<and> evaluate_point env a w h wt al be st = (Inr p, st1) \<and>
                  length (p_tf p) = length (p_inst_freq p) \<and>
                  record_point p st1 = (None, st'))"
proof (cases "evaluate_point env a w h wt al be st")
  case (Pair res st1)
  show ?thesis
  proof (cases res)
    case (Inl e)
    with Pair assms show ?thesis by (simp add: grid_point_body_def)
  next
    case (Inr p)
    with Pair have len: "length (p_tf p) = length (p_inst_freq p)"
      using evaluate_point_lengths by blast
    from Pair Inr assms have "record_point p st1 = (r, st')" by (simp add: grid_point_body_def)
    with record_point_ok [OF len, of st1] Pair Inr len show ?thesis by auto
  qed
qed

lemma grid_point_body_best_inv:
  assumes "best_inv st" and "grid_point_body env a w h wt al be st = (r, st')"
  shows "best_inv st'"
  using grid_point_body_cases [OF assms(2)]
proof (elim disjE exE conjE)
  fix e assume "evaluate_point env a w h wt al be st = (Inl e, st')"
  from evaluate_point_effects [OF this] assms(1) show ?thesis by (simp add: best_inv_def)
next
  fix p st1
  assume ev: "evaluate_point env a w h wt al be st = (Inr p, st1)"
    and len: "length (p_tf p) = length (p_inst_freq p)"
    and rp: "record_point p st1 = (None, st')"
  from evaluate_point_effects [OF ev] assms(1) have inv1: "best_inv st1" by (simp add: best_inv_def)
  from rp record_point_ok [OF len, of st1]
  have "csv_file st' = csv_file st1 @ [log_row p]"
    and "opt st' = (if np_less (p_measure2check p) (opt st1) then p_measure2check p else opt st1)"
    by auto
  with inv1 show ?thesis
    by (simp add: best_inv_def logged_measures_append is_min_of_step)
qed

lemma for_each_preserves:
  assumes step: "\<And>x s r s'. P s \<Longrightarrow> body x s = (r, s') \<Longrightarrow> P s'"
    and "P st" and "for_each xs body st = (r, st')"
  shows "P st'"
  using assms(2,3)
proof (induction xs arbitrary: st)
  case Nil
  then show ?case by simp
next
  case (Cons x xs)
  obtain r1 s1 where b: "body x st = (r1, s1)" by (cases "body x st")
  with Cons.prems(1) have P1: "P s1" using step by blast
  show ?case
  proof (cases r1)
    case None
    with b Cons.prems(2) have "for_each xs body s1 = (r, st')" by simp
    with Cons.IH P1 show ?thesis by blast
  next
    case (Some e)
    with b Cons.prems(2) have "st' = s1" by simp
    with P1 show ?thesis by simp
  qed
qed

lemma sweep_loops_preserves:
  assumes body: "\<And>w h wt al be s r s'. P s \<Longrightarrow> grid_point_body env a w h wt al be s = (r, s') \<Longrightarrow> P s'"
    and del: "\<And>s r s'. P s \<Longrightarrow> del_locals s = (r, s') \<Longrightarrow> P s'"
    and "P st" and "sweep_loops g env a st = (r, st')"
  shows "P st'"
proof -
  have betas: "P s'"
    if "P s" "for_each (beta_list g) (grid_point_body env a w h wt al) s = (r', s')"
    for w h wt al s r' s'
    by (rule for_each_preserves [where P = P, OF _ that]) (rule body)
  have alphas: "P s'"
    if "P s" "for_each (alpha_list g) (\<lambda>alpha.
                for_each (beta_list g) (grid_point_body env a w h wt alpha)) s = (r', s')"
    for w h wt s r' s'
    by (rule for_each_preserves [where P = P, OF _ that]) (rule betas)
  have types: "P s'"
    if "P s" "for_each (win_type g) (\<lambda>window_type.
                for_each (alpha_list g) (\<lambda>alpha.
                  for_each (beta_list g) (grid_point_body env a w h window_type alpha))) s = (r', s')"
    for w h s r' s'
    by (rule for_each_preserves [where P = P, OF _ that]) (rule alphas)
  have hop: "P s'"
    if "P s" "(case for_each (win_type g) (\<lambda>window_type.
                for_each (alpha_list g) (\<lambda>alpha.
                  for_each (beta_list g) (grid_point_body env a w h window_type alpha))) s of
                 (Some e, st') \<Rightarrow> (Some e, st')
               | (None, st') \<Rightarrow> del_locals st') = (r', s')"
    for w h s r' s'
  proof -
    obtain r1 s1 where l: "for_each (win_type g) (\<lambda>window_type.
                for_each (alpha_list g) (\<lambda>alpha.
                  for_each (beta_list g) (grid_point_body env a w h window_type alpha))) s = (r1, s1)"
      by (cases "for_each (win_type g) (\<lambda>window_type.
                for_each (alpha_list g) (\<lambda>alpha.
                  for_each (beta_list g) (grid_point_body env a w h window_type alpha))) s")
    from types [OF that(1) l] have P1: "P s1" .
    show ?thesis
    proof (cases r1)
      case None
      with l that(2) have "del_locals s1 = (r', s')" by simp
      with P1 show ?thesis by (rule del)
    next
      case (Some e)
      with l that(2) have "s' = s1" by simp
      with P1 show ?thesis by simp
    qed
  qed
  have hops: "P s'"
    if "P s" "for_each (hop_perc g) (\<lambda>hop st.
         case for_each (win_type g) (\<lambda>window_type.
                for_each (alpha_list g) (\<lambda>alpha.
                  for_each (beta_list g) (grid_point_body env a w hop window_type alpha))) st of
           (Some e, st') \<Rightarrow> (Some e, st')
         | (None, st') \<Rightarrow> del_locals st') s = (r', s')"
    for w s r' s'
    by (rule for_each_preserves [where P = P, OF _ that]) (rule hop)
  have run: "for_each (win g) (\<lambda>win_len.
       for_each (hop_perc g) (\<lambda>hop st.
         case for_each (win_type g) (\<lambda>window_type.
                for_each (alpha_list g) (\<lambda>alpha.
                  for_each (beta_list g) (\<lambda>beta.
                    grid_point_body env a win_len hop window_type alpha beta))) st of
           (Some e, st') \<Rightarrow> (Some e, st')
         | (None, st') \<Rightarrow> del_locals st')) st = (r, st')"
    using assms(4) by (simp add: sweep_loops_def)
  show ?thesis
    by (rule for_each_preserves [where P = P, OF _ assms(3) run]) (rule hops)
qed

lemma del_locals_state:
  "del_locals s = (r, s') \<Longrightarrow>
   csv_file s' = csv_file s \<and> opt s' = opt s \<and> opt_param s' = opt_param s \<and> stdout s' = stdout s"
  by (auto simp: del_locals_def split: if_splits)

lemma best_inv_start: "best_inv start_state"
  by (simp add: best_inv_def start_state_def is_min_of_def logged_measures_def)

lemma sweep_loops_best_inv:
  assumes "sweep_loops g env a start_state = (r, st)"
  shows "best_inv st"
proof (rule sweep_loops_preserves [where P = best_inv, OF _ _ best_inv_start assms])
  show "\<And>w h wt al be s r s'. best_inv s \<Longrightarrow> grid_point_body env a w h wt al be s = (r, s') \<Longrightarrow> best_inv s'"
    by (rule grid_point_body_best_inv)
  show "\<And>s r s'. best_inv s \<Longrightarrow> del_locals s = (r, s') \<Longrightarrow> best_inv s'"
    using del_locals_state by (simp add: best_inv_def)
qed

subsection \<open>A run on the small environment\<close>

lemma demo_evaluate_L2:
  "evaluate_point demo_env (demo_args ''pure_tone'' ''L2'') 32 (1 / 2) ''Hann'' alpha 0 st =
     (Inr \<lparr>p_window_width = 32, p_incr = 16, p_spec_dim = 6,
           p_tf = [Fin (2000 + alpha), Fin 2000], p_inst_freq = [Fin 2000, Fin 2000],
           p_measure2check = Fin (\<bar>alpha\<bar> / 6)\<rparr>,
      st\<lparr>TFR_bound := True,
         stdout := stdout st @ [[OInt 32, OInt 16], [OStr ''spec dim'', OShape (3, 2)]],
         fstep_bound := True\<rparr>)"
  by (simp add: evaluate_point_def demo_env_def demo_wav_def demo_args_def print_def
      measure_of_def L2_measure_def frequency_axis_def np_arange_def np_linspace_def row0_def
      np_T_def pure_tone_law py_int_def norm_ord2_def np_dot_def np_sum_def np_vsub_def
      np_sub_def Let_def upt_rec)

lemma demo_body_L2:
  "grid_point_body demo_env (demo_args ''pure_tone'' ''L2'') 32 (1 / 2) ''Hann'' alpha 0 st =
   (None,
    st\<lparr>TFR_bound := True, fstep_bound := True,
       csv_file := csv_file st @
         [[CInt 32, CInt 16, CStr [], CStr [], CStr [], CInt 6, CFloat (Fin (\<bar>alpha\<bar> / 6))]],
       stdout := stdout st @ [[OInt 32, OInt 16], [OStr ''spec dim'', OShape (3, 2)]] @
         (if np_less (Fin (\<bar>alpha\<bar> / 6)) (opt st)
          then [[OStr ''optimal parameters updated:'', ODict (opt_param st)],
                [OFloat (Fin \<bar>alpha\<bar>)]]
          else []),
       opt := (if np_less (Fin (\<bar>alpha\<bar> / 6)) (opt st) then Fin (\<bar>alpha\<bar> / 6) else opt st),
       opt_param := (if np_less (Fin (\<bar>alpha\<bar> / 6)) (opt st)
                     then dict_set (dict_set (opt_param st) ''win_len'' (PyInt 32)) ''hop'' (PyInt 16)
                     else opt_param st)\<rparr>)"
  by (simp add: grid_point_body_def demo_evaluate_L2 record_point_ok log_row_def
      norm_ord2_def np_dot_def np_sum_def np_sub_def)

lemma demo_sweep_loops:
  "sweep_loops (two_point_grid 2 0) demo_env (demo_args ''pure_tone'' ''L2'') start_state =
   (None,
    \<lparr>csv_file =
       [map CStr fieldnames,
        [CInt 32, CInt 16, CStr [], CStr [], CStr [], CInt 6, CFloat (Fin (1 / 3))],
        [CInt 32, CInt 16, CStr [], CStr [], CStr [], CInt 6, CFloat (Fin 0)]],
     stdout =
       [[OInt 32, OInt 16], [OStr ''spec dim'', OShape (3, 2)],
        [OStr ''optimal parameters updated:'',
         ODict [(''window_lenght'', PyEmptyList), (''hop'', PyEmptyList),
                (''window_type'', PyEmptyList), (''alpha'', PyEmptyList),
                (''beta'', PyEmptyList)]],
        [OFloat (Fin 2)],
        [OInt 32, OInt 16], [OStr ''spec dim'', OShape (3, 2)],
        [OStr ''optimal parameters updated:'',
         ODict [(''window_lenght'', PyEmptyList), (''hop'', PyInt 16),
                (''window_type'', PyEmptyList), (''alpha'', PyEmptyList),
                (''beta'', PyEmptyList), (''win_len'', PyInt 32)]],
        [OFloat (Fin 0)]],
     opt = Fin 0,
     opt_param = [(''window_lenght'', PyEmptyList), (''hop'', PyInt 16),
                  (''window_type'', PyEmptyList), (''alpha'', PyEmptyList),
                  (''beta'', PyEmptyList), (''win_len'', PyInt 32)],
     TFR_bound = False, fstep_bound = False\<rparr>)"
  by (simp add: sweep_loops_def two_point_grid_def demo_body_L2 del_locals_def start_state_def)

subsection \<open>The running best\<close>

text \<open>
  Claim C9. The running best \<^verbatim>\<open>opt\<close> starts at plus infinity. A grid point that is
  evaluated adds its measure \<open>m\<close> to the log and replaces \<^verbatim>\<open>opt\<close> by \<open>m\<close> exactly when
  \<open>m\<close> is strictly below it; a grid point that raises leaves the log and \<^verbatim>\<open>opt\<close> as
  they were. So \<^verbatim>\<open>opt\<close> never goes up, and after every grid point, and in the state
  the loops end in (normally or not), it is the minimum of infinity and of the
  measures seen so far (a NaN is below nothing and is not counted).
\<close>

theorem running_best_is_minimum:
  "opt start_state = PInf \<and> best_inv start_state \<and>
   (best_inv st \<and> grid_point_body env a w h wt al be st = (r, st') \<longrightarrow>
      best_inv st' \<and> \<not> np_less (opt st) (opt st') \<and>
      (r = None \<longrightarrow>
         (\<exists>m. logged_measures (csv_file st') = logged_measures (csv_file st) @ [m] \<and>
              opt st' = (if np_less m (opt st) then m else opt st))) \<and>
      (r \<noteq> None \<longrightarrow> csv_file st' = csv_file st \<and> opt st' = opt st)) \<and>
   (sweep_loops g env a start_state = (r2, st2) \<longrightarrow> best_inv st2)"
proof (intro conjI impI)
  show "opt start_state = PInf" by (simp add: start_state_def)
  show "best_inv start_state" by (rule best_inv_start)
next
  assume "sweep_loops g env a start_state = (r2, st2)"
  then show "best_inv st2" by (rule sweep_loops_best_inv)
next
  assume h: "best_inv st \<and> grid_point_body env a w h wt al be st = (r, st')"
  then have inv: "best_inv st" and body: "grid_point_body env a w h wt al be st = (r, st')"
    by simp_all
  show "best_inv st'" using inv body by (rule grid_point_body_best_inv)
  from grid_point_body_cases [OF body]
  have "\<not> np_less (opt st) (opt st') \<and>
        (r = None \<longrightarrow>
           (\<exists>m. logged_measures (csv_file st') = logged_measures (csv_file st) @ [m] \<and>
                opt st' = (if np_less m (opt st) then m else opt st))) \<and>
        (r \<noteq> None \<longrightarrow> csv_file st' = csv_file st \<and> opt st' = opt st)"
  proof (elim disjE exE conjE)
    fix e assume r: "r = Some e" and ev: "evaluate_point env a w h wt al be st = (Inl e, st')"
    from evaluate_point_effects [OF ev] r show ?thesis by (simp add: np_less_irrefl)
  next
    fix p st1
    assume r: "r = None" and ev: "evaluate_point env a w h wt al be st = (Inr p, st1)"
      and len: "length (p_tf p) = length (p_inst_freq p)"
      and rp: "record_point p st1 = (None, st')"
    from evaluate_point_effects [OF ev]
    have same: "csv_file st1 = csv_file st" "opt st1 = opt st" by simp_all
    from inv have ne: "csv_file st \<noteq> []" by (simp add: best_inv_def)
    from rp record_point_ok [OF len, of st1] same
    have log: "csv_file st' = csv_file st @ [log_row p]"
      and best: "opt st' = (if np_less (p_measure2check p) (opt st) then p_measure2check p else opt st)"
      by auto
    from log ne have "logged_measures (csv_file st') =
        logged_measures (csv_file st) @ [p_measure2check p]"
      by (simp add: logged_measures_append)
    moreover from best have "\<not> np_less (opt st) (opt st')"
      using np_less_asym [of "p_measure2check p" "opt st"] by (simp add: np_less_irrefl)
    ultimately show ?thesis using r best by blast
  qed
  then show "\<not> np_less (opt st) (opt st')"
    and "r = None \<Longrightarrow>
           \<exists>m. logged_measures (csv_file st') = logged_measures (csv_file st) @ [m] \<and>
               opt st' = (if np_less m (opt st) then m else opt st)"
    and "r \<noteq> None \<Longrightarrow> csv_file st' = csv_file st"
    and "r \<noteq> None \<Longrightarrow> opt st' = opt st"
    by blast+
qed

theorem running_best_is_minimum_witness:
  "best_inv start_state \<and>
   grid_point_body demo_env (demo_args ''pure_tone'' ''L2'') 32 (1 / 2) ''Hann'' 2 0 start_state =
     (None, snd (grid_point_body demo_env (demo_args ''pure_tone'' ''L2'') 32 (1 / 2) ''Hann'' 2 0
                   start_state)) \<and>
   best_inv (snd (grid_point_body demo_env (demo_args ''pure_tone'' ''L2'') 32 (1 / 2) ''Hann'' 2 0
                    start_state)) \<and>
   opt (snd (grid_point_body demo_env (demo_args ''pure_tone'' ''L2'') 32 (1 / 2) ''Hann'' 2 0
               start_state)) = Fin (1 / 3) \<and>
   best_inv (snd (sweep_loops (two_point_grid 2 0) demo_env (demo_args ''pure_tone'' ''L2'')
                    start_state)) \<and>
   opt (snd (sweep_loops (two_point_grid 2 0) demo_env (demo_args ''pure_tone'' ''L2'')
               start_state)) = Fin 0 \<and>
   logged_measures (csv_file (snd (sweep_loops (two_point_grid 2 0) demo_env
                                     (demo_args ''pure_tone'' ''L2'') start_state))) =
     [Fin (1 / 3), Fin 0]"
proof -
  have b: "fst (grid_point_body demo_env (demo_args ''pure_tone'' ''L2'') 32 (1 / 2) ''Hann'' 2 0
                  start_state) = None"
    by (simp add: demo_body_L2)
  have o: "opt (snd (grid_point_body demo_env (demo_args ''pure_tone'' ''L2'') 32 (1 / 2) ''Hann'' 2 0
               start_state)) = Fin (1 / 3)"
    by (simp add: demo_body_L2 start_state_def)
  have l: "logged_measures (csv_file (snd (sweep_loops (two_point_grid 2 0) demo_env
                                     (demo_args ''pure_tone'' ''L2'') start_state))) =
     [Fin (1 / 3), Fin 0]"
    by (simp add: demo_sweep_loops logged_measures_def)
  have o2: "opt (snd (sweep_loops (two_point_grid 2 0) demo_env (demo_args ''pure_tone'' ''L2'')
               start_state)) = Fin 0"
    by (simp add: demo_sweep_loops)
  show ?thesis
    using running_best_is_minimum
      [where st = start_state and env = demo_env and a = "demo_args ''pure_tone'' ''L2''"
         and w = 32 and h = "1 / 2" and wt = "''Hann''" and al = 2 and be = 0
         and r = "fst (grid_point_body demo_env (demo_args ''pure_tone'' ''L2'') 32 (1 / 2)
                         ''Hann'' 2 0 start_state)"
         and st' = "snd (grid_point_body demo_env (demo_args ''pure_tone'' ''L2'') 32 (1 / 2)
                           ''Hann'' 2 0 start_state)"
         and g = "two_point_grid 2 0"
         and ?r2.0 = "fst (sweep_loops (two_point_grid 2 0) demo_env
                          (demo_args ''pure_tone'' ''L2'') start_state)"
         and ?st2.0 = "snd (sweep_loops (two_point_grid 2 0) demo_env
                           (demo_args ''pure_tone'' ''L2'') start_state)"]
      b o l o2
    by (simp add: prod_eq_iff)
qed

subsection \<open>The log\<close>

text \<open>
  Claim C4. The claim is that every data row of the log records window width,
  increment, window type, alpha, beta, spectrogram dimension and measure. The
  header names the seven columns, but the dictionary given to \<^verbatim>\<open>writerow\<close> at lines
  258 to 260 has only four keys, so the cells of \<^verbatim>\<open>window type\<close>, \<^verbatim>\<open>alpha\<close> and
  \<^verbatim>\<open>beta\<close> are empty in every row. On the grid of two points that differ in alpha
  (2, then 0), the header comes once and first and each point has its row, but the
  two rows differ in the measure only.
\<close>

theorem log_rows_leave_three_columns_empty:
  "csv_file (snd (sweep (two_point_grid 2 0) demo_env (demo_args ''pure_tone'' ''L2''))) =
     [[CStr ''window_width'', CStr ''incr'', CStr ''window type'', CStr ''alpha'', CStr ''beta'',
       CStr ''spec dim'', CStr ''measure''],
      [CInt 32, CInt 16, CStr [], CStr [], CStr [], CInt 6, CFloat (Fin (1 / 3))],
      [CInt 32, CInt 16, CStr [], CStr [], CStr [], CInt 6, CFloat (Fin 0)]]"
  by (simp add: sweep_def demo_sweep_loops print_def fieldnames_def)

subsection \<open>The value returned\<close>

lemma sweep_never_returns: "\<exists>e. fst (sweep g env a) = Inl e"
  by (simp add: sweep_def Let_def split: prod.splits option.splits)

text \<open>
  Claim C1. The claim is that the function returns the grid point of minimal
  measure. It returns nothing: when the loops end, line 272 reads the key
  \<^verbatim>\<open>win_len\<close> of \<^verbatim>\<open>opt_param\<close> (absent when no measure was below infinity) and line
  274 reads \<^verbatim>\<open>window_length_opt\<close>, which is bound nowhere, so every call ends in an
  exception. On the grid of two points the call ends in that NameError.
\<close>

theorem find_optimal_spec_IF_parameters_never_returns:
  "(\<exists>e. fst (find_optimal_spec_IF_parameters env path dir sid sg_type scale norm_t metric) = Inl e) \<and>
   fst (sweep (two_point_grid 2 0) demo_env (demo_args ''pure_tone'' ''L2'')) =
     Inl (NameError ''window_length_opt'')"
  by (simp add: find_optimal_spec_IF_parameters_def sweep_never_returns)
     (simp add: sweep_def demo_sweep_loops print_def)

section \<open>The measures\<close>











section \<open>Exceptions in the sweep\<close>

subsection \<open>An unrecognised signal class\<close>

lemma set_if_fun_unknown:
  "sid \<notin> {''pure_tone'', ''exponential_downchirp'', ''exponential_upchirp'',
            ''linear_downchirp'', ''linear_upchirp''} \<Longrightarrow>
   set_if_fun pw sid T =
     ([[OStr ''ERROR SIGNAL ID NOT CONSISTENT WITH THE IF WE CAN HANDLE'']],
      Inl (UnboundLocalError ''if_fun''))"
  by (simp add: set_if_fun_def)

lemma frequency_axis_error:
  "frequency_axis env scale fs TFR = Inl e \<Longrightarrow> e = ZeroDivisionError"
  by (auto simp: frequency_axis_def np_arange_def Let_def split: if_splits)

lemma evaluate_point_unknown_result:
  assumes "signal_id a \<notin> {''pure_tone'', ''exponential_downchirp'', ''exponential_upchirp'',
            ''linear_downchirp'', ''linear_upchirp''}"
  shows "\<exists>e st'. evaluate_point env a w h wt al be st = (Inl e, st') \<and>
           (e = ZeroDivisionError \<or> e = UnboundLocalError ''if_fun'') \<and>
           csv_file st' = csv_file st \<and> opt st' = opt st \<and> opt_param st' = opt_param st \<and>
           stdout st' = stdout st @
             [[OInt w, OInt (py_int (real_of_int w * h))],
              [OStr ''spec dim'',
               OShape (shape1 (spectrogram env (readWav env (signal_path a)) w
                                 (py_int (real_of_int w * h)) wt (spectrogram_type a) (freq_scale a)),
                       shape0 (spectrogram env (readWav env (signal_path a)) w
                                 (py_int (real_of_int w * h)) wt (spectrogram_type a) (freq_scale a)))]] @
             (if e = UnboundLocalError ''if_fun''
              then [[OStr ''ERROR SIGNAL ID NOT CONSISTENT WITH THE IF WE CAN HANDLE'']] else [])"
  by (auto simp: evaluate_point_def Let_def set_if_fun_unknown [OF assms] print_def np_T_def
      dest: frequency_axis_error split: sum.splits prod.splits)

lemma sweep_loops_first_point_raises:
  assumes "grid_point_body env a w h wt al be st = (Some e, st')"
    and "win g = w # ws" and "hop_perc g = h # hs" and "win_type g = wt # wts"
    and "alpha_list g = al # als" and "beta_list g = be # bes"
  shows "sweep_loops g env a st = (Some e, st')"
  using assms by (simp add: sweep_loops_def)

lemma demo_evaluate_unknown:
  "evaluate_point demo_env (demo_args ''unknown_class'' ''L2'') 32 (1 / 10) ''Hann'' 0 0 st =
     (Inl (UnboundLocalError ''if_fun''),
      st\<lparr>TFR_bound := True,
         stdout := stdout st @
           [[OInt 32, OInt 3], [OStr ''spec dim'', OShape (3, 2)],
            [OStr ''ERROR SIGNAL ID NOT CONSISTENT WITH THE IF WE CAN HANDLE'']],
         fstep_bound := True\<rparr>)"
  by (simp add: evaluate_point_def demo_env_def demo_wav_def demo_args_def print_def
      frequency_axis_def np_arange_def np_T_def set_if_fun_def py_int_def Let_def)

text \<open>
  Claim C2, as the code has it. The claim is that an unrecognised signal class
  fails before any grid point is evaluated, so that the sweep does not start.
  \<^verbatim>\<open>set_if_fun\<close> is called at line 245, inside the loop body. What holds: with a
  signal class outside the five, the whole run of the loops is the body of the
  first grid point (window 32, hop 1/10, Hann, alpha 0, beta 0) and ends in the
  exception this body raises: the UnboundLocalError of \<^verbatim>\<open>return if_fun\<close>, or a
  ZeroDivisionError when the frequency axis or the duration cannot be computed.
  What is printed is the line of the first grid point, the dimensions of its
  spectrogram and then, with the UnboundLocalError, the message of \<^verbatim>\<open>set_if_fun\<close>,
  and nothing else; the log holds its header and nothing else; \<^verbatim>\<open>opt\<close> is still
  infinity.
\<close>

theorem unknown_signal_class_stops_first_grid_point:
  assumes "sid \<notin> {''pure_tone'', ''exponential_downchirp'', ''exponential_upchirp'',
            ''linear_downchirp'', ''linear_upchirp''}"
  shows "\<exists>e. fst (find_optimal_spec_IF_parameters env path dir sid sg_type scale norm_t metric) = Inl e \<and>
           (e = ZeroDivisionError \<or> e = UnboundLocalError ''if_fun'') \<and>
           sweep_loops source_grid env
             \<lparr>signal_path = path, save_dir = dir, signal_id = sid, spectrogram_type = sg_type,
              freq_scale = scale, norm_type = norm_t, opt_metric = metric\<rparr> start_state =
           grid_point_body env
             \<lparr>signal_path = path, save_dir = dir, signal_id = sid, spectrogram_type = sg_type,
              freq_scale = scale, norm_type = norm_t, opt_metric = metric\<rparr>
             32 (1 / 10) ''Hann'' 0 0 start_state \<and>
           snd (find_optimal_spec_IF_parameters env path dir sid sg_type scale norm_t metric) =
           snd (grid_point_body env
             \<lparr>signal_path = path, save_dir = dir, signal_id = sid, spectrogram_type = sg_type,
              freq_scale = scale, norm_type = norm_t, opt_metric = metric\<rparr>
             32 (1 / 10) ''Hann'' 0 0 start_state) \<and>
           csv_file (snd (find_optimal_spec_IF_parameters env path dir sid sg_type scale norm_t metric)) =
             [map CStr fieldnames] \<and>
           opt (snd (find_optimal_spec_IF_parameters env path dir sid sg_type scale norm_t metric)) = PInf \<and>
           stdout (snd (find_optimal_spec_IF_parameters env path dir sid sg_type scale norm_t metric)) =
             [[OInt 32, OInt 3],
              [OStr ''spec dim'',
               OShape (shape1 (spectrogram env (readWav env path) 32 3 ''Hann'' sg_type scale),
                       shape0 (spectrogram env (readWav env path) 32 3 ''Hann'' sg_type scale))]] @
             (if e = UnboundLocalError ''if_fun''
              then [[OStr ''ERROR SIGNAL ID NOT CONSISTENT WITH THE IF WE CAN HANDLE'']] else [])"
proof -
  define a where "a = \<lparr>signal_path = path, save_dir = dir, signal_id = sid,
        spectrogram_type = sg_type, freq_scale = scale, norm_type = norm_t, opt_metric = metric\<rparr>"
  have u: "signal_id a \<notin> {''pure_tone'', ''exponential_downchirp'', ''exponential_upchirp'',
            ''linear_downchirp'', ''linear_upchirp''}"
    using assms by (simp add: a_def)
  have i: "py_int (real_of_int 32 * (1 / 10)) = 3" by (simp add: py_int_def)
  from evaluate_point_unknown_result [OF u, of env 32 "1 / 10" "''Hann''" 0 0 start_state]
  obtain e st' where
    ev: "evaluate_point env a 32 (1 / 10) ''Hann'' 0 0 start_state = (Inl e, st')"
    and k: "e = ZeroDivisionError \<or> e = UnboundLocalError ''if_fun''"
    and c: "csv_file st' = csv_file start_state" and o: "opt st' = opt start_state"
    and p: "stdout st' = stdout start_state @
             [[OInt 32, OInt 3],
              [OStr ''spec dim'',
               OShape (shape1 (spectrogram env (readWav env path) 32 3 ''Hann'' sg_type scale),
                       shape0 (spectrogram env (readWav env path) 32 3 ''Hann'' sg_type scale))]] @
             (if e = UnboundLocalError ''if_fun''
              then [[OStr ''ERROR SIGNAL ID NOT CONSISTENT WITH THE IF WE CAN HANDLE'']] else [])"
    unfolding i by (auto simp: a_def)
  have b: "grid_point_body env a 32 (1 / 10) ''Hann'' 0 0 start_state = (Some e, st')"
    using ev by (simp add: grid_point_body_def)
  have l: "sweep_loops source_grid env a start_state = (Some e, st')"
    by (rule sweep_loops_first_point_raises [OF b]) (simp_all add: source_grid_def)
  then have f: "find_optimal_spec_IF_parameters env path dir sid sg_type scale norm_t metric = (Inl e, st')"
    by (simp add: find_optimal_spec_IF_parameters_def sweep_def a_def)
  show ?thesis
    using f k l b c o p unfolding a_def [symmetric]
    by (intro exI [of _ e]) (simp add: start_state_def)
qed

theorem unknown_signal_class_stops_first_grid_point_witness:
  "''unknown_class'' \<notin> {''pure_tone'', ''exponential_downchirp'', ''exponential_upchirp'',
            ''linear_downchirp'', ''linear_upchirp''} \<and>
   (\<exists>e. fst (find_optimal_spec_IF_parameters demo_env ''pure_tone00.wav'' ''out''
             ''unknown_class'' ''Standard'' ''Linear'' ''Standard'' ''L2'') = Inl e \<and>
        (e = ZeroDivisionError \<or> e = UnboundLocalError ''if_fun'') \<and>
        sweep_loops source_grid demo_env (demo_args ''unknown_class'' ''L2'') start_state =
          grid_point_body demo_env (demo_args ''unknown_class'' ''L2'') 32 (1 / 10) ''Hann'' 0 0
            start_state \<and>
        snd (find_optimal_spec_IF_parameters demo_env ''pure_tone00.wav'' ''out''
             ''unknown_class'' ''Standard'' ''Linear'' ''Standard'' ''L2'') =
          snd (grid_point_body demo_env (demo_args ''unknown_class'' ''L2'') 32 (1 / 10) ''Hann''
                 0 0 start_state) \<and>
        csv_file (snd (find_optimal_spec_IF_parameters demo_env ''pure_tone00.wav'' ''out''
             ''unknown_class'' ''Standard'' ''Linear'' ''Standard'' ''L2'')) =
          [map CStr fieldnames] \<and>
        opt (snd (find_optimal_spec_IF_parameters demo_env ''pure_tone00.wav'' ''out''
             ''unknown_class'' ''Standard'' ''Linear'' ''Standard'' ''L2'')) = PInf \<and>
        stdout (snd (find_optimal_spec_IF_parameters demo_env ''pure_tone00.wav'' ''out''
             ''unknown_class'' ''Standard'' ''Linear'' ''Standard'' ''L2'')) =
          [[OInt 32, OInt 3], [OStr ''spec dim'', OShape (3, 2)]] @
          (if e = UnboundLocalError ''if_fun''
           then [[OStr ''ERROR SIGNAL ID NOT CONSISTENT WITH THE IF WE CAN HANDLE'']] else []))"
proof -
  have h: "''unknown_class'' \<notin> {''pure_tone'', ''exponential_downchirp'', ''exponential_upchirp'',
            ''linear_downchirp'', ''linear_upchirp''}"
    by simp
  have s: "shape1 (spectrogram demo_env (readWav demo_env ''pure_tone00.wav'') 32 3 ''Hann''
                     ''Standard'' ''Linear'') = 3"
          "shape0 (spectrogram demo_env (readWav demo_env ''pure_tone00.wav'') 32 3 ''Hann''
                     ''Standard'' ''Linear'') = 2"
    by (simp_all add: demo_env_def)
  show ?thesis
    using h unknown_signal_class_stops_first_grid_point
      [OF h, of demo_env "''pure_tone00.wav''" "''out''" "''Standard''" "''Linear''"
         "''Standard''" "''L2''"]
    unfolding s demo_args_def [symmetric]
    by blast
qed

text \<open>
  The claim C2 as stated fails: on the small environment the call with the class
  \<^verbatim>\<open>unknown_class\<close> prints the line of the first grid point and the dimensions of
  its spectrogram before the message of \<^verbatim>\<open>set_if_fun\<close>; the sweep has started. The
  exception is the UnboundLocalError of \<^verbatim>\<open>return if_fun\<close>.
\<close>

theorem unknown_signal_class_sweep_has_started:
  "fst (find_optimal_spec_IF_parameters demo_env ''pure_tone00.wav'' ''out'' ''unknown_class''
          ''Standard'' ''Linear'' ''Standard'' ''L2'') = Inl (UnboundLocalError ''if_fun'') \<and>
   stdout (snd (find_optimal_spec_IF_parameters demo_env ''pure_tone00.wav'' ''out''
          ''unknown_class'' ''Standard'' ''Linear'' ''Standard'' ''L2'')) =
     [[OInt 32, OInt 3], [OStr ''spec dim'', OShape (3, 2)],
      [OStr ''ERROR SIGNAL ID NOT CONSISTENT WITH THE IF WE CAN HANDLE'']]"
proof -
  have b: "grid_point_body demo_env (demo_args ''unknown_class'' ''L2'') 32 (1 / 10) ''Hann'' 0 0
             start_state =
           (Some (UnboundLocalError ''if_fun''),
            start_state\<lparr>TFR_bound := True,
               stdout := stdout start_state @
                 [[OInt 32, OInt 3], [OStr ''spec dim'', OShape (3, 2)],
                  [OStr ''ERROR SIGNAL ID NOT CONSISTENT WITH THE IF WE CAN HANDLE'']],
               fstep_bound := True\<rparr>)"
    by (simp add: grid_point_body_def demo_evaluate_unknown)
  have "sweep_loops source_grid demo_env (demo_args ''unknown_class'' ''L2'') start_state =
           (Some (UnboundLocalError ''if_fun''),
            start_state\<lparr>TFR_bound := True,
               stdout := stdout start_state @
                 [[OInt 32, OInt 3], [OStr ''spec dim'', OShape (3, 2)],
                  [OStr ''ERROR SIGNAL ID NOT CONSISTENT WITH THE IF WE CAN HANDLE'']],
               fstep_bound := True\<rparr>)"
    by (rule sweep_loops_first_point_raises [OF b]) (simp_all add: source_grid_def)
  then show ?thesis
    by (simp add: find_optimal_spec_IF_parameters_def sweep_def demo_args_def [symmetric]
        start_state_def)
qed

subsection \<open>A grid point with no number, a grid point that raises\<close>




















end
